theory Spec2Isabelle
  imports Main "HOL-Library.Word"
begin

section \<open>The Venafi certificate request signer\<close>

text \<open>
  A shallow embedding of \<^verbatim>\<open>pkg/controller/certificaterequests/venafi/venafi.go\<close>:
  the method \<^verbatim>\<open>Venafi.Sign\<close> builds a Venafi client, asks it to sign the CSR of a
  certificate request and reports what happened. The method talks to four collaborators:
  the client builder, the client's own \<^verbatim>\<open>Sign\<close>, the reporter (which writes to the event
  recorder) and the logger. The builder and the client are inputs of the model; the
  recorder and the logger are two separate output channels of the state.
\<close>

subsection \<open>Data\<close>

type_synonym bytes = string
  \<comment> \<open>Go \<^verbatim>\<open>[]byte\<close>; the nil slice and the empty slice are both \<open>[]\<close>.\<close>

type_synonym duration = "64 word"
  \<comment> \<open>Go \<^verbatim>\<open>time.Duration\<close>, an \<^verbatim>\<open>int64\<close> of nanoseconds.\<close>

text \<open>
  Go \<^verbatim>\<open>error\<close> values, by dynamic type. The type switch of \<^verbatim>\<open>Sign\<close> tells
  \<^verbatim>\<open>endpoint.ErrCertificatePending\<close> and \<^verbatim>\<open>endpoint.ErrRetrieveCertificateTimeout\<close>
  from everything else; \<^verbatim>\<open>k8sErrors.IsNotFound\<close> looks at the status reason of an API
  status error. A nil \<^verbatim>\<open>error\<close> is \<open>None\<close> of \<open>error option\<close>.
\<close>

datatype StatusReason = StatusReasonNotFound | StatusReasonOther string

datatype error =
    is_ErrCertificatePending: ErrCertificatePending string string
  | is_ErrRetrieveCertificateTimeout: ErrRetrieveCertificateTimeout string
  | StatusError StatusReason string
  | OtherError string

fun IsNotFound :: "error \<Rightarrow> bool" where
  "IsNotFound (StatusError r m) = (r = StatusReasonNotFound)"
| "IsNotFound (ErrCertificatePending c s) = False"
| "IsNotFound (ErrRetrieveCertificateTimeout c) = False"
| "IsNotFound (OtherError m) = False"

text \<open>
  The certificate request. \<^verbatim>\<open>Sign\<close> reads \<^verbatim>\<open>cr.Namespace\<close>,
  \<^verbatim>\<open>cr.Spec.Duration\<close> and \<^verbatim>\<open>cr.Spec.CSRPEM\<close>; every other field of the API type
  lives in the extension part of the record scheme \<open>'r CertificateRequest_scheme\<close>.
\<close>

record CertificateRequestSpec =
  Duration :: "duration option"
  CSRPEM :: bytes

record CertificateRequest =
  Namespace :: string
  Spec :: CertificateRequestSpec

record IssueResponse =
  Certificate :: bytes

text \<open>
  The client interface, by its one method used here:
  \<^verbatim>\<open>Sign(csrPEM []byte, duration time.Duration) (cert []byte, err error)\<close>. The pair is
  kept as a pair: the Go code itself decides what happens to \<^verbatim>\<open>cert\<close> when
  \<^verbatim>\<open>err\<close> is not nil.
\<close>

type_synonym client = "bytes \<Rightarrow> duration \<Rightarrow> bytes \<times> error option"

text \<open>
  \<^verbatim>\<open>venafiinternal.VenafiClientBuilder\<close>: namespace, secrets lister and issuer to
  \<^verbatim>\<open>(client, err)\<close>. \<^verbatim>\<open>Sign\<close> looks at the client only when \<^verbatim>\<open>err\<close> is nil, and
  a builder hands out a usable client exactly then, so the pair is the sum
  \<open>error + client\<close> (\<open>Inl\<close> the error).
\<close>

type_synonym ('l, 'i) VenafiClientBuilder = "string \<Rightarrow> 'l \<Rightarrow> 'i \<Rightarrow> error + client"

text \<open>
  The struct \<^verbatim>\<open>Venafi\<close>. The fields \<^verbatim>\<open>issuerOptions\<close> and \<^verbatim>\<open>helper\<close> are never read by
  \<^verbatim>\<open>Sign\<close>; the \<^verbatim>\<open>recorder\<close> is the event channel of the state below.
\<close>

record ('l, 'i) Venafi =
  secretsLister :: 'l
  clientBuilder :: "('l, 'i) VenafiClientBuilder"

subsection \<open>Output channels\<close>

text \<open>The logger value: \<^verbatim>\<open>logf.FromContext(ctx, "sign")\<close>, then possibly
  \<^verbatim>\<open>logf.WithRelatedResource(log, issuerObj)\<close>.\<close>

datatype 'i logger = FromContext string | WithRelatedResource "'i logger" 'i

datatype 'i log_entry =
    LogError "'i logger" error string
  | LogInfo "'i logger" string

datatype outcome = Pending | Failed

record 'r event =
  ev_object :: "'r CertificateRequest_scheme"
  ev_kind :: outcome
  ev_err :: "error option"
  ev_reason :: string
  ev_message :: string

text \<open>
  The state around one call: the certificate request object behind the pointer \<^verbatim>\<open>cr\<close>
  (the reporter holds the same pointer), the events recorded so far, the log lines written
  so far, and the calls made so far to the client builder and to the client's
  \<^verbatim>\<open>Sign\<close>.
\<close>

record ('r, 'i) world =
  request :: "'r CertificateRequest_scheme"
  recorded :: "'r event list"
  logged :: "'i log_entry list"
  buildCalls :: "(string \<times> 'i) list"
  signCalls :: "(bytes \<times> duration) list"

subsection \<open>Collaborators whose code is elsewhere\<close>

text \<open>
  Modelled from the spec: \<^verbatim>\<open>crutil.Reporter\<close> with its method \<^verbatim>\<open>Pending\<close> is not part of
  the source file (\<^verbatim>\<open>crutil.NewReporter(cr, v.recorder)\<close> ties the reporter to the request
  and to the recorder). The specification gives the sink as
  \<^verbatim>\<open>Record(request, severity, reasonCode, message)\<close>, fire-and-forget, an audit event as
  "reason code + human message + the outcome's severity, tied to the originating
  SigningRequest", and the request as "immutable once handed to the Signer". So the call
  \<^verbatim>\<open>reporter.Pending(err, reason, message)\<close> appends one pending event about the request to
  the recorded events and changes nothing else.
\<close>

definition reporter_Pending :: "error option \<Rightarrow> string \<Rightarrow> string \<Rightarrow> ('r, 'i) world \<Rightarrow> ('r, 'i) world" where
  "reporter_Pending e rsn msg w =
     w\<lparr>recorded := recorded w @
        [\<lparr>ev_object = request w, ev_kind = Pending, ev_err = e, ev_reason = rsn, ev_message = msg\<rparr>]\<rparr>"

text \<open>
  Modelled from the spec: the method \<^verbatim>\<open>Failed\<close> of \<^verbatim>\<open>crutil.Reporter\<close> is not part of the
  source file either. By the same sentences of the specification,
  \<^verbatim>\<open>reporter.Failed(err, reason, message)\<close> appends one failed event about the request to
  the recorded events and changes nothing else.
\<close>

definition reporter_Failed :: "error option \<Rightarrow> string \<Rightarrow> string \<Rightarrow> ('r, 'i) world \<Rightarrow> ('r, 'i) world" where
  "reporter_Failed e rsn msg w =
     w\<lparr>recorded := recorded w @
        [\<lparr>ev_object = request w, ev_kind = Failed, ev_err = e, ev_reason = rsn, ev_message = msg\<rparr>]\<rparr>"

text \<open>
  The logger (\<^verbatim>\<open>logf\<close>) is outside the source file as well; a call of \<^verbatim>\<open>log.Error\<close> or
  \<^verbatim>\<open>log.Info\<close> is kept as one line of the log, with the logger value it was made on.
\<close>

definition log_Error :: "'i logger \<Rightarrow> error \<Rightarrow> string \<Rightarrow> ('r, 'i) world \<Rightarrow> ('r, 'i) world" where
  "log_Error lg e msg w = w\<lparr>logged := logged w @ [LogError lg e msg]\<rparr>"

definition log_Info :: "'i logger \<Rightarrow> string \<Rightarrow> ('r, 'i) world \<Rightarrow> ('r, 'i) world" where
  "log_Info lg msg w = w\<lparr>logged := logged w @ [LogInfo lg msg]\<rparr>"

text \<open>
  Modelled from the spec: \<^verbatim>\<open>apiutil.DefaultCertDuration\<close> is not part of the source file.
  The specification: "a requested validity duration (optional; falls back to a system
  default when unset)". The system default is the parameter \<open>dflt\<close>.
\<close>

definition DefaultCertDuration :: "duration \<Rightarrow> duration option \<Rightarrow> duration" where
  "DefaultCertDuration dflt d = (case d of None \<Rightarrow> dflt | Some x \<Rightarrow> x)"

subsection \<open>Sign\<close>

text \<open>
  The method \<^verbatim>\<open>Sign(ctx, cr, issuerObj)\<close> of \<^verbatim>\<open>Venafi\<close>, statement by statement. The
  result is the Go pair of an \<^verbatim>\<open>IssueResponse\<close> pointer and an \<^verbatim>\<open>error\<close>, each component
  \<open>None\<close> for nil, together with the state after the call. The default duration \<open>dflt\<close>
  is the package constant behind \<^verbatim>\<open>DefaultCertDuration\<close>.
\<close>

definition Sign ::
  "duration \<Rightarrow> ('l, 'i) Venafi \<Rightarrow> 'i \<Rightarrow> ('r, 'i) world \<Rightarrow>
     (IssueResponse option \<times> error option) \<times> ('r, 'i) world" where
  "Sign dflt v issuerObj w0 =
    (let log = FromContext ''sign'';
         built = clientBuilder v (Namespace (request w0)) (secretsLister v) issuerObj;
         w1 = w0\<lparr>buildCalls := buildCalls w0 @ [(Namespace (request w0), issuerObj)]\<rparr>
     in case built of
       Inl err \<Rightarrow>
         (let log = WithRelatedResource log issuerObj in
          if IsNotFound err then
            (let message = ''Required secret resource not found'';
                 w2 = reporter_Pending (Some err) ''MissingSecret'' message w1;
                 w3 = log_Error log err message w2
             in ((None, None), w3))
          else
            (let message = ''Failed to initialise venafi client for signing'';
                 w2 = reporter_Pending (Some err) ''ErrorVenafiInit'' message w1;
                 w3 = log_Error log err message w2
             in ((None, Some err), w3)))
     | Inr client \<Rightarrow>
         (let duration = DefaultCertDuration dflt (Duration (Spec (request w1)));
              signed = client (CSRPEM (Spec (request w1))) duration;
              w2 = w1\<lparr>signCalls := signCalls w1 @ [(CSRPEM (Spec (request w1)), duration)]\<rparr>;
              certPem = fst signed
          in case snd signed of
            Some err \<Rightarrow>
              (case err of
                 ErrCertificatePending c s \<Rightarrow>
                   (let message = ''venafi certificate still in a pending state, the request will be retried'';
                        w3 = reporter_Pending (Some err) ''IssuancePending'' message w2;
                        w4 = log_Error log err message w3
                    in ((None, Some err), w4))
               | ErrRetrieveCertificateTimeout c \<Rightarrow>
                   (let message = ''timed out waiting for venafi certificate, the request will be retried'';
                        w3 = reporter_Failed (Some err) ''Timeout'' message w2;
                        w4 = log_Error log err message w3
                    in ((None, None), w4))
               | _ \<Rightarrow>
                   (let message = ''failed to obtain venafi certificate'';
                        w3 = reporter_Pending (Some err) ''Retrieve'' message w2;
                        w4 = log_Error log err message w3
                    in ((None, Some err), w4)))
          | None \<Rightarrow>
              (let w3 = log_Info log ''certificate issued'' w2
               in ((Some \<lparr>Certificate = certPem\<rparr>, None), w3))))"

text \<open>
  What the two collaborators answer in a given state (the conditions the properties below
  are stated under), and whether the call takes one of the failure paths.
\<close>

definition builderAnswer :: "('l, 'i) Venafi \<Rightarrow> 'i \<Rightarrow> ('r, 'i) world \<Rightarrow> error + client" where
  "builderAnswer v issuerObj w = clientBuilder v (Namespace (request w)) (secretsLister v) issuerObj"

definition requestedDuration :: "duration \<Rightarrow> ('r, 'i) world \<Rightarrow> duration" where
  "requestedDuration dflt w = DefaultCertDuration dflt (Duration (Spec (request w)))"

definition clientAnswer :: "duration \<Rightarrow> client \<Rightarrow> ('r, 'i) world \<Rightarrow> bytes \<times> error option" where
  "clientAnswer dflt client w = client (CSRPEM (Spec (request w))) (requestedDuration dflt w)"

definition signFails :: "duration \<Rightarrow> ('l, 'i) Venafi \<Rightarrow> 'i \<Rightarrow> ('r, 'i) world \<Rightarrow> bool" where
  "signFails dflt v issuerObj w =
     (case builderAnswer v issuerObj w of
        Inl e \<Rightarrow> True
      | Inr client \<Rightarrow> snd (clientAnswer dflt client w) \<noteq> None)"

subsection \<open>Concrete inputs\<close>

definition exampleRequest :: CertificateRequest where
  "exampleRequest =
     \<lparr>Namespace = ''default'',
      Spec = \<lparr>Duration = None, CSRPEM = ''-----BEGIN CERTIFICATE REQUEST-----''\<rparr>\<rparr>"

definition exampleWorld :: "(unit, string) world" where
  "exampleWorld =
     \<lparr>request = exampleRequest, recorded = [], logged = [], buildCalls = [], signCalls = []\<rparr>"

definition issuingClient :: client where
  "issuingClient csr d = (''-----BEGIN CERTIFICATE-----'', None)"

definition pendingClient :: client where
  "pendingClient csr d = ([], Some (ErrCertificatePending ''id-1'' ''Pending''))"

definition timeoutClient :: client where
  "timeoutClient csr d = ([], Some (ErrRetrieveCertificateTimeout ''id-1''))"

definition unreachableClient :: client where
  "unreachableClient csr d = ([], Some (OtherError ''connection refused''))"

definition venafiWith :: "client \<Rightarrow> (unit, string) Venafi" where
  "venafiWith c = \<lparr>secretsLister = (), clientBuilder = (\<lambda>ns l i. Inr c)\<rparr>"

definition venafiWithout :: "error \<Rightarrow> (unit, string) Venafi" where
  "venafiWithout e = \<lparr>secretsLister = (), clientBuilder = (\<lambda>ns l i. Inl e)\<rparr>"

definition secretNotFound :: error where
  "secretNotFound = StatusError StatusReasonNotFound ''secret not found''"

definition badConfig :: error where
  "badConfig = OtherError ''invalid issuer configuration''"

definition ninetyDays :: duration where
  "ninetyDays = 7776000000000000"

section \<open>Properties\<close>

subsection \<open>The four exits of Sign\<close>

text \<open>
  One equation per exit: the whole result and the whole state after the call, under the
  condition that leads there. The claims below are read off these.
\<close>

lemma Sign_build_failed:
  "builderAnswer v i w = Inl e \<Longrightarrow>
   Sign dflt v i w =
     ((None, if IsNotFound e then None else Some e),
      w\<lparr>buildCalls := buildCalls w @ [(Namespace (request w), i)],
        recorded := recorded w @
          [\<lparr>ev_object = request w, ev_kind = Pending, ev_err = Some e,
            ev_reason = (if IsNotFound e then ''MissingSecret'' else ''ErrorVenafiInit''),
            ev_message = (if IsNotFound e then ''Required secret resource not found''
                          else ''Failed to initialise venafi client for signing'')\<rparr>],
        logged := logged w @
          [LogError (WithRelatedResource (FromContext ''sign'') i) e
             (if IsNotFound e then ''Required secret resource not found''
              else ''Failed to initialise venafi client for signing'')]\<rparr>)"
  by (simp add: Sign_def builderAnswer_def Let_def reporter_Pending_def log_Error_def)

lemma Sign_issued:
  "builderAnswer v i w = Inr c \<Longrightarrow> clientAnswer dflt c w = (pem, None) \<Longrightarrow>
   Sign dflt v i w =
     ((Some \<lparr>Certificate = pem\<rparr>, None),
      w\<lparr>buildCalls := buildCalls w @ [(Namespace (request w), i)],
        signCalls := signCalls w @ [(CSRPEM (Spec (request w)), requestedDuration dflt w)],
        logged := logged w @ [LogInfo (FromContext ''sign'') ''certificate issued'']\<rparr>)"
  by (simp add: Sign_def builderAnswer_def clientAnswer_def requestedDuration_def Let_def
      log_Info_def)

lemma Sign_pending:
  "builderAnswer v i w = Inr c \<Longrightarrow>
   clientAnswer dflt c w = (pem, Some (ErrCertificatePending cid st)) \<Longrightarrow>
   Sign dflt v i w =
     ((None, Some (ErrCertificatePending cid st)),
      w\<lparr>buildCalls := buildCalls w @ [(Namespace (request w), i)],
        signCalls := signCalls w @ [(CSRPEM (Spec (request w)), requestedDuration dflt w)],
        recorded := recorded w @
          [\<lparr>ev_object = request w, ev_kind = Pending,
            ev_err = Some (ErrCertificatePending cid st), ev_reason = ''IssuancePending'',
            ev_message = ''venafi certificate still in a pending state, the request will be retried''\<rparr>],
        logged := logged w @
          [LogError (FromContext ''sign'') (ErrCertificatePending cid st)
             ''venafi certificate still in a pending state, the request will be retried'']\<rparr>)"
  by (simp add: Sign_def builderAnswer_def clientAnswer_def requestedDuration_def Let_def
      reporter_Pending_def log_Error_def)

lemma Sign_timeout:
  "builderAnswer v i w = Inr c \<Longrightarrow>
   clientAnswer dflt c w = (pem, Some (ErrRetrieveCertificateTimeout cid)) \<Longrightarrow>
   Sign dflt v i w =
     ((None, None),
      w\<lparr>buildCalls := buildCalls w @ [(Namespace (request w), i)],
        signCalls := signCalls w @ [(CSRPEM (Spec (request w)), requestedDuration dflt w)],
        recorded := recorded w @
          [\<lparr>ev_object = request w, ev_kind = Failed,
            ev_err = Some (ErrRetrieveCertificateTimeout cid), ev_reason = ''Timeout'',
            ev_message = ''timed out waiting for venafi certificate, the request will be retried''\<rparr>],
        logged := logged w @
          [LogError (FromContext ''sign'') (ErrRetrieveCertificateTimeout cid)
             ''timed out waiting for venafi certificate, the request will be retried'']\<rparr>)"
  by (simp add: Sign_def builderAnswer_def clientAnswer_def requestedDuration_def Let_def
      reporter_Failed_def log_Error_def)

lemma Sign_retrieve:
  "builderAnswer v i w = Inr c \<Longrightarrow> clientAnswer dflt c w = (pem, Some e) \<Longrightarrow>
   \<not> is_ErrCertificatePending e \<Longrightarrow> \<not> is_ErrRetrieveCertificateTimeout e \<Longrightarrow>
   Sign dflt v i w =
     ((None, Some e),
      w\<lparr>buildCalls := buildCalls w @ [(Namespace (request w), i)],
        signCalls := signCalls w @ [(CSRPEM (Spec (request w)), requestedDuration dflt w)],
        recorded := recorded w @
          [\<lparr>ev_object = request w, ev_kind = Pending, ev_err = Some e,
            ev_reason = ''Retrieve'', ev_message = ''failed to obtain venafi certificate''\<rparr>],
        logged := logged w @
          [LogError (FromContext ''sign'') e ''failed to obtain venafi certificate'']\<rparr>)"
  by (cases e)
    (simp_all add: Sign_def builderAnswer_def clientAnswer_def requestedDuration_def Let_def
      reporter_Pending_def log_Error_def)

text \<open>Every call takes one of the exits above.\<close>

lemma Sign_exits:
  obtains
    (build_failed) e where "builderAnswer v i w = Inl e"
  | (issued) c pem where "builderAnswer v i w = Inr c" "clientAnswer dflt c w = (pem, None)"
  | (pending) c pem cid st where "builderAnswer v i w = Inr c"
      "clientAnswer dflt c w = (pem, Some (ErrCertificatePending cid st))"
  | (timeout) c pem cid where "builderAnswer v i w = Inr c"
      "clientAnswer dflt c w = (pem, Some (ErrRetrieveCertificateTimeout cid))"
  | (retrieve) c pem e where "builderAnswer v i w = Inr c"
      "clientAnswer dflt c w = (pem, Some e)"
      "\<not> is_ErrCertificatePending e" "\<not> is_ErrRetrieveCertificateTimeout e"
proof (cases "builderAnswer v i w")
  case (Inl e)
  then show ?thesis by (rule build_failed)
next
  case (Inr c)
  obtain pem r where ans: "clientAnswer dflt c w = (pem, r)"
    by (cases "clientAnswer dflt c w")
  show ?thesis
  proof (cases r)
    case None
    with Inr ans show ?thesis by (auto intro: issued)
  next
    case (Some e)
    show ?thesis
    proof (cases e)
      case (ErrCertificatePending cid st)
      with Inr ans Some show ?thesis by (auto intro: pending)
    next
      case (ErrRetrieveCertificateTimeout cid)
      with Inr ans Some show ?thesis by (auto intro: timeout)
    next
      case (StatusError rsn m)
      with Inr ans Some show ?thesis by (auto intro: retrieve)
    next
      case (OtherError m)
      with Inr ans Some show ?thesis by (auto intro: retrieve)
    qed
  qed
qed

subsection \<open>Events per call\<close>

text \<open>
  Claim C1, as stated: every call of \<^verbatim>\<open>Sign\<close> records exactly one audit event through the
  event sink, on the success path too. The code does not: on the success path it writes the
  log line \<^verbatim>\<open>log.Info("certificate issued")\<close> and never calls the reporter. At the
  concrete input below the client is built, the CA answers with a certificate and a nil
  error, and the number of recorded events is not one more than before.
\<close>

theorem Sign_one_event_counterexample:
  "signFails ninetyDays (venafiWith issuingClient) ''venafi-issuer'' exampleWorld = False
   \<and> length (recorded (snd (Sign ninetyDays (venafiWith issuingClient) ''venafi-issuer'' exampleWorld)))
       \<noteq> length (recorded exampleWorld) + 1"
  by (simp add: Sign_def signFails_def builderAnswer_def clientAnswer_def requestedDuration_def
      DefaultCertDuration_def venafiWith_def issuingClient_def exampleWorld_def exampleRequest_def
      log_Info_def Let_def)

text \<open>
  Claim C1, amended: every call of \<^verbatim>\<open>Sign\<close> that takes a failure path (the client builder
  fails, or the CA client's \<^verbatim>\<open>Sign\<close> returns an error) records exactly one audit event
  through the event sink before returning; a call on the success path records none. The
  events recorded before the call stay as they were, so there are never two new events.
\<close>

theorem Sign_events_per_call:
  "\<exists>evs. recorded (snd (Sign dflt v i w)) = recorded w @ evs
         \<and> length evs = (if signFails dflt v i w then 1 else 0)"
proof (cases rule: Sign_exits [where v = v and i = i and w = w and dflt = dflt])
  case (build_failed e)
  then show ?thesis by (simp add: Sign_build_failed signFails_def)
next
  case (issued c pem)
  then show ?thesis by (simp add: Sign_issued signFails_def)
next
  case (pending c pem cid st)
  then show ?thesis by (simp add: Sign_pending signFails_def)
next
  case (timeout c pem cid)
  then show ?thesis by (simp add: Sign_timeout signFails_def)
next
  case (retrieve c pem e)
  then show ?thesis by (simp add: Sign_retrieve signFails_def)
qed

theorem Sign_events_per_call_witness:
  "signFails ninetyDays (venafiWith timeoutClient) ''venafi-issuer'' exampleWorld
   \<and> length (recorded (snd (Sign ninetyDays (venafiWith timeoutClient) ''venafi-issuer'' exampleWorld))) = 1"
proof -
  have f: "signFails ninetyDays (venafiWith timeoutClient) ''venafi-issuer'' exampleWorld"
    by (simp add: signFails_def builderAnswer_def clientAnswer_def venafiWith_def timeoutClient_def)
  have r: "recorded exampleWorld = []"
    by (simp add: exampleWorld_def)
  from Sign_events_per_call [of ninetyDays "venafiWith timeoutClient" "''venafi-issuer''" exampleWorld]
  show ?thesis using f r by auto
qed

subsection \<open>Success\<close>

text \<open>
  Claim C2, as stated: when the client is built and the CA returns a certificate with a nil
  error, \<^verbatim>\<open>Sign\<close> returns that certificate with a nil error and exactly one informational
  event is recorded. The first half holds; the second does not: with the CA answering
  \<^verbatim>\<open>-----BEGIN CERTIFICATE-----\<close>, the certificate comes back and the list of recorded
  events is still empty.
\<close>

theorem Sign_issued_event_counterexample:
  "fst (Sign ninetyDays (venafiWith issuingClient) ''venafi-issuer'' exampleWorld)
     = (Some \<lparr>Certificate = ''-----BEGIN CERTIFICATE-----''\<rparr>, None)
   \<and> recorded (snd (Sign ninetyDays (venafiWith issuingClient) ''venafi-issuer'' exampleWorld)) = []"
  by (simp add: Sign_def DefaultCertDuration_def venafiWith_def issuingClient_def
      exampleWorld_def exampleRequest_def log_Info_def Let_def)

text \<open>
  Claim C2, amended: when the client is built and the CA client's \<^verbatim>\<open>Sign\<close> returns a
  certificate with a nil error, \<^verbatim>\<open>Sign\<close> returns exactly that certificate, unmodified,
  with a nil error; no event is recorded through the event sink, and exactly one
  informational log line, "certificate issued", is written (no error log line).
\<close>

theorem Sign_issued_returns_certificate:
  assumes "builderAnswer v i w = Inr c" and "clientAnswer dflt c w = (pem, None)"
  shows "fst (Sign dflt v i w) = (Some \<lparr>Certificate = pem\<rparr>, None)
         \<and> recorded (snd (Sign dflt v i w)) = recorded w
         \<and> logged (snd (Sign dflt v i w)) = logged w @ [LogInfo (FromContext ''sign'') ''certificate issued'']"
  using assms by (simp add: Sign_issued)

theorem Sign_issued_returns_certificate_witness:
  "builderAnswer (venafiWith issuingClient) ''venafi-issuer'' exampleWorld = Inr issuingClient
   \<and> clientAnswer ninetyDays issuingClient exampleWorld = (''-----BEGIN CERTIFICATE-----'', None)
   \<and> fst (Sign ninetyDays (venafiWith issuingClient) ''venafi-issuer'' exampleWorld)
       = (Some \<lparr>Certificate = ''-----BEGIN CERTIFICATE-----''\<rparr>, None)
   \<and> recorded (snd (Sign ninetyDays (venafiWith issuingClient) ''venafi-issuer'' exampleWorld)) = []
   \<and> logged (snd (Sign ninetyDays (venafiWith issuingClient) ''venafi-issuer'' exampleWorld))
       = [LogInfo (FromContext ''sign'') ''certificate issued'']"
proof -
  have b: "builderAnswer (venafiWith issuingClient) ''venafi-issuer'' exampleWorld = Inr issuingClient"
    by (simp add: builderAnswer_def venafiWith_def)
  have a: "clientAnswer ninetyDays issuingClient exampleWorld = (''-----BEGIN CERTIFICATE-----'', None)"
    by (simp add: clientAnswer_def issuingClient_def)
  have e: "recorded exampleWorld = []" "logged exampleWorld = []"
    by (simp_all add: exampleWorld_def)
  from Sign_issued_returns_certificate [OF b a] show ?thesis
    using b a e by simp
qed

subsection \<open>The result pair\<close>

text \<open>
  Claim C3: for every input, the result pair of \<^verbatim>\<open>Sign\<close> never has both components
  non-nil: the response is nil or the error is nil. This holds whatever the CA client
  returns, also when it returns bytes together with an error.
\<close>

theorem Sign_never_both:
  "fst (fst (Sign dflt v i w)) = None \<or> snd (fst (Sign dflt v i w)) = None"
proof (cases rule: Sign_exits [where v = v and i = i and w = w and dflt = dflt])
  case (build_failed e)
  then show ?thesis by (simp add: Sign_build_failed)
next
  case (issued c pem)
  then show ?thesis by (simp add: Sign_issued)
next
  case (pending c pem cid st)
  then show ?thesis by (simp add: Sign_pending)
next
  case (timeout c pem cid)
  then show ?thesis by (simp add: Sign_timeout)
next
  case (retrieve c pem e)
  then show ?thesis by (simp add: Sign_retrieve)
qed

theorem Sign_never_both_witness:
  "fst (fst (Sign ninetyDays (venafiWith unreachableClient) ''venafi-issuer'' exampleWorld)) = None
   \<and> snd (fst (Sign ninetyDays (venafiWith unreachableClient) ''venafi-issuer'' exampleWorld))
       = Some (OtherError ''connection refused'')"
proof -
  have s: "snd (fst (Sign ninetyDays (venafiWith unreachableClient) ''venafi-issuer'' exampleWorld))
             = Some (OtherError ''connection refused'')"
    by (simp add: Sign_def DefaultCertDuration_def venafiWith_def unreachableClient_def
        reporter_Pending_def log_Error_def Let_def)
  from Sign_never_both [of ninetyDays "venafiWith unreachableClient" "''venafi-issuer''" exampleWorld]
  show ?thesis using s by simp
qed

subsection \<open>Errors of the CA client\<close>

text \<open>
  Claim C4: when the CA client's \<^verbatim>\<open>Sign\<close> returns a retrieval-timeout error
  (\<^verbatim>\<open>ErrRetrieveCertificateTimeout\<close>), \<^verbatim>\<open>Sign\<close> returns (nil, nil), no certificate and
  no error, and exactly one event is recorded, with reason code \<^verbatim>\<open>Timeout\<close>.
\<close>

theorem Sign_timeout_swallowed:
  assumes "builderAnswer v i w = Inr c"
    and "clientAnswer dflt c w = (pem, Some (ErrRetrieveCertificateTimeout cid))"
  shows "fst (Sign dflt v i w) = (None, None)
         \<and> recorded (snd (Sign dflt v i w)) = recorded w @
             [\<lparr>ev_object = request w, ev_kind = Failed,
               ev_err = Some (ErrRetrieveCertificateTimeout cid), ev_reason = ''Timeout'',
               ev_message = ''timed out waiting for venafi certificate, the request will be retried''\<rparr>]"
  using assms by (simp add: Sign_timeout)

theorem Sign_timeout_swallowed_witness:
  "builderAnswer (venafiWith timeoutClient) ''venafi-issuer'' exampleWorld = Inr timeoutClient
   \<and> clientAnswer ninetyDays timeoutClient exampleWorld = ([], Some (ErrRetrieveCertificateTimeout ''id-1''))
   \<and> fst (Sign ninetyDays (venafiWith timeoutClient) ''venafi-issuer'' exampleWorld) = (None, None)
   \<and> map ev_reason (recorded (snd (Sign ninetyDays (venafiWith timeoutClient) ''venafi-issuer'' exampleWorld)))
       = [''Timeout'']"
proof -
  have b: "builderAnswer (venafiWith timeoutClient) ''venafi-issuer'' exampleWorld = Inr timeoutClient"
    by (simp add: builderAnswer_def venafiWith_def)
  have a: "clientAnswer ninetyDays timeoutClient exampleWorld = ([], Some (ErrRetrieveCertificateTimeout ''id-1''))"
    by (simp add: clientAnswer_def timeoutClient_def)
  have e: "recorded exampleWorld = []"
    by (simp add: exampleWorld_def)
  from Sign_timeout_swallowed [OF b a] show ?thesis
    using b a e by simp
qed

text \<open>
  Claim C6: when the CA client's \<^verbatim>\<open>Sign\<close> returns a certificate-pending error
  (\<^verbatim>\<open>ErrCertificatePending\<close>), the call is classified as pending with reason code
  \<^verbatim>\<open>IssuancePending\<close> (the one event recorded is a \<^verbatim>\<open>Pending\<close> report with that reason),
  and \<^verbatim>\<open>Sign\<close> returns no certificate and a non-nil error (the pending error itself), the
  signal to retry.
\<close>

theorem Sign_pending_retried:
  assumes "builderAnswer v i w = Inr c"
    and "clientAnswer dflt c w = (pem, Some (ErrCertificatePending cid st))"
  shows "fst (Sign dflt v i w) = (None, Some (ErrCertificatePending cid st))
         \<and> recorded (snd (Sign dflt v i w)) = recorded w @
             [\<lparr>ev_object = request w, ev_kind = Pending,
               ev_err = Some (ErrCertificatePending cid st), ev_reason = ''IssuancePending'',
               ev_message = ''venafi certificate still in a pending state, the request will be retried''\<rparr>]"
  using assms by (simp add: Sign_pending)

theorem Sign_pending_retried_witness:
  "builderAnswer (venafiWith pendingClient) ''venafi-issuer'' exampleWorld = Inr pendingClient
   \<and> clientAnswer ninetyDays pendingClient exampleWorld = ([], Some (ErrCertificatePending ''id-1'' ''Pending''))
   \<and> fst (Sign ninetyDays (venafiWith pendingClient) ''venafi-issuer'' exampleWorld)
       = (None, Some (ErrCertificatePending ''id-1'' ''Pending''))
   \<and> map ev_kind (recorded (snd (Sign ninetyDays (venafiWith pendingClient) ''venafi-issuer'' exampleWorld)))
       = [Pending]
   \<and> map ev_reason (recorded (snd (Sign ninetyDays (venafiWith pendingClient) ''venafi-issuer'' exampleWorld)))
       = [''IssuancePending'']"
proof -
  have b: "builderAnswer (venafiWith pendingClient) ''venafi-issuer'' exampleWorld = Inr pendingClient"
    by (simp add: builderAnswer_def venafiWith_def)
  have a: "clientAnswer ninetyDays pendingClient exampleWorld = ([], Some (ErrCertificatePending ''id-1'' ''Pending''))"
    by (simp add: clientAnswer_def pendingClient_def)
  have e: "recorded exampleWorld = []"
    by (simp add: exampleWorld_def)
  from Sign_pending_retried [OF b a] show ?thesis
    using b a e by simp
qed

text \<open>
  Claim C7: when the CA client's \<^verbatim>\<open>Sign\<close> returns a non-nil error that is neither the
  certificate-pending nor the retrieval-timeout condition, \<^verbatim>\<open>Sign\<close> returns (nil, err)
  with that very error, and exactly one event is recorded, with reason code
  \<^verbatim>\<open>Retrieve\<close>.
\<close>

theorem Sign_other_error_returned:
  assumes "builderAnswer v i w = Inr c"
    and "clientAnswer dflt c w = (pem, Some e)"
    and "\<not> is_ErrCertificatePending e" and "\<not> is_ErrRetrieveCertificateTimeout e"
  shows "fst (Sign dflt v i w) = (None, Some e)
         \<and> recorded (snd (Sign dflt v i w)) = recorded w @
             [\<lparr>ev_object = request w, ev_kind = Pending, ev_err = Some e,
               ev_reason = ''Retrieve'', ev_message = ''failed to obtain venafi certificate''\<rparr>]"
  using assms by (simp add: Sign_retrieve)

theorem Sign_other_error_returned_witness:
  "builderAnswer (venafiWith unreachableClient) ''venafi-issuer'' exampleWorld = Inr unreachableClient
   \<and> clientAnswer ninetyDays unreachableClient exampleWorld = ([], Some (OtherError ''connection refused''))
   \<and> \<not> is_ErrCertificatePending (OtherError ''connection refused'')
   \<and> \<not> is_ErrRetrieveCertificateTimeout (OtherError ''connection refused'')
   \<and> Duration (Spec (request exampleWorld)) = None
   \<and> fst (Sign ninetyDays (venafiWith unreachableClient) ''venafi-issuer'' exampleWorld)
       = (None, Some (OtherError ''connection refused''))
   \<and> map ev_reason (recorded (snd (Sign ninetyDays (venafiWith unreachableClient) ''venafi-issuer'' exampleWorld)))
       = [''Retrieve'']"
proof -
  have b: "builderAnswer (venafiWith unreachableClient) ''venafi-issuer'' exampleWorld = Inr unreachableClient"
    by (simp add: builderAnswer_def venafiWith_def)
  have a: "clientAnswer ninetyDays unreachableClient exampleWorld = ([], Some (OtherError ''connection refused''))"
    by (simp add: clientAnswer_def unreachableClient_def)
  have p: "\<not> is_ErrCertificatePending (OtherError ''connection refused'')"
    and t: "\<not> is_ErrRetrieveCertificateTimeout (OtherError ''connection refused'')"
    by simp_all
  have e: "recorded exampleWorld = []" "Duration (Spec (request exampleWorld)) = None"
    by (simp_all add: exampleWorld_def exampleRequest_def)
  from Sign_other_error_returned [OF b a p t] show ?thesis
    using b a e by simp
qed

subsection \<open>Failures of the client builder\<close>

text \<open>
  Claim C5: when the client builder fails with a "not found" error, \<^verbatim>\<open>Sign\<close> returns
  (nil, nil), records exactly one event, with reason code \<^verbatim>\<open>MissingSecret\<close>, and makes no
  call to the CA client's \<^verbatim>\<open>Sign\<close>. A second call in the state the first one left, the
  secret still missing, does the same: the same result, the same event once more, and
  still no call to the CA.
\<close>

theorem Sign_missing_secret:
  assumes "builderAnswer v i w = Inl e" and "IsNotFound e"
  shows "fst (Sign dflt v i w) = (None, None)
         \<and> recorded (snd (Sign dflt v i w)) = recorded w @
             [\<lparr>ev_object = request w, ev_kind = Pending, ev_err = Some e,
               ev_reason = ''MissingSecret'', ev_message = ''Required secret resource not found''\<rparr>]
         \<and> signCalls (snd (Sign dflt v i w)) = signCalls w
         \<and> builderAnswer v i (snd (Sign dflt v i w)) = Inl e
         \<and> fst (Sign dflt v i (snd (Sign dflt v i w))) = (None, None)
         \<and> recorded (snd (Sign dflt v i (snd (Sign dflt v i w)))) = recorded (snd (Sign dflt v i w)) @
             [\<lparr>ev_object = request w, ev_kind = Pending, ev_err = Some e,
               ev_reason = ''MissingSecret'', ev_message = ''Required secret resource not found''\<rparr>]
         \<and> signCalls (snd (Sign dflt v i (snd (Sign dflt v i w)))) = signCalls w"
proof -
  let ?w1 = "snd (Sign dflt v i w)"
  have first: "fst (Sign dflt v i w) = (None, None)"
    and rec1: "recorded ?w1 = recorded w @
             [\<lparr>ev_object = request w, ev_kind = Pending, ev_err = Some e,
               ev_reason = ''MissingSecret'', ev_message = ''Required secret resource not found''\<rparr>]"
    and calls1: "signCalls ?w1 = signCalls w"
    and req1: "request ?w1 = request w"
    using assms by (simp_all add: Sign_build_failed)
  have again: "builderAnswer v i ?w1 = Inl e"
    using assms(1) req1 by (simp add: builderAnswer_def)
  have second: "fst (Sign dflt v i ?w1) = (None, None)"
    and rec2: "recorded (snd (Sign dflt v i ?w1)) = recorded ?w1 @
             [\<lparr>ev_object = request ?w1, ev_kind = Pending, ev_err = Some e,
               ev_reason = ''MissingSecret'', ev_message = ''Required secret resource not found''\<rparr>]"
    and calls2: "signCalls (snd (Sign dflt v i ?w1)) = signCalls ?w1"
    using again assms(2) by (simp_all add: Sign_build_failed)
  from first rec1 calls1 again second rec2 calls2 req1 show ?thesis
    by simp
qed

theorem Sign_missing_secret_witness:
  "builderAnswer (venafiWithout secretNotFound) ''venafi-issuer'' exampleWorld = Inl secretNotFound
   \<and> IsNotFound secretNotFound
   \<and> fst (Sign ninetyDays (venafiWithout secretNotFound) ''venafi-issuer'' exampleWorld) = (None, None)
   \<and> map ev_reason (recorded (snd (Sign ninetyDays (venafiWithout secretNotFound) ''venafi-issuer'' exampleWorld)))
       = [''MissingSecret'']
   \<and> signCalls (snd (Sign ninetyDays (venafiWithout secretNotFound) ''venafi-issuer'' exampleWorld)) = []
   \<and> fst (Sign ninetyDays (venafiWithout secretNotFound) ''venafi-issuer''
            (snd (Sign ninetyDays (venafiWithout secretNotFound) ''venafi-issuer'' exampleWorld))) = (None, None)
   \<and> map ev_reason (recorded (snd (Sign ninetyDays (venafiWithout secretNotFound) ''venafi-issuer''
            (snd (Sign ninetyDays (venafiWithout secretNotFound) ''venafi-issuer'' exampleWorld)))))
       = [''MissingSecret'', ''MissingSecret'']
   \<and> signCalls (snd (Sign ninetyDays (venafiWithout secretNotFound) ''venafi-issuer''
            (snd (Sign ninetyDays (venafiWithout secretNotFound) ''venafi-issuer'' exampleWorld)))) = []"
proof -
  have b: "builderAnswer (venafiWithout secretNotFound) ''venafi-issuer'' exampleWorld = Inl secretNotFound"
    by (simp add: builderAnswer_def venafiWithout_def)
  have n: "IsNotFound secretNotFound"
    by (simp add: secretNotFound_def)
  have e: "recorded exampleWorld = []" "signCalls exampleWorld = []"
    by (simp_all add: exampleWorld_def)
  from Sign_missing_secret [OF b n, of ninetyDays] show ?thesis
    using b n e by simp
qed

text \<open>
  Claim C8: when the client builder fails with any error other than "not found",
  \<^verbatim>\<open>Sign\<close> returns (nil, err) with that non-nil error, records exactly one event, with
  reason code \<^verbatim>\<open>ErrorVenafiInit\<close>, and makes no call to the CA client's \<^verbatim>\<open>Sign\<close>.
\<close>

theorem Sign_init_error:
  assumes "builderAnswer v i w = Inl e" and "\<not> IsNotFound e"
  shows "fst (Sign dflt v i w) = (None, Some e)
         \<and> recorded (snd (Sign dflt v i w)) = recorded w @
             [\<lparr>ev_object = request w, ev_kind = Pending, ev_err = Some e,
               ev_reason = ''ErrorVenafiInit'',
               ev_message = ''Failed to initialise venafi client for signing''\<rparr>]
         \<and> signCalls (snd (Sign dflt v i w)) = signCalls w"
  using assms by (simp add: Sign_build_failed)

theorem Sign_init_error_witness:
  "builderAnswer (venafiWithout badConfig) ''venafi-issuer'' exampleWorld = Inl badConfig
   \<and> \<not> IsNotFound badConfig
   \<and> fst (Sign ninetyDays (venafiWithout badConfig) ''venafi-issuer'' exampleWorld) = (None, Some badConfig)
   \<and> map ev_reason (recorded (snd (Sign ninetyDays (venafiWithout badConfig) ''venafi-issuer'' exampleWorld)))
       = [''ErrorVenafiInit'']
   \<and> signCalls (snd (Sign ninetyDays (venafiWithout badConfig) ''venafi-issuer'' exampleWorld)) = []"
proof -
  have b: "builderAnswer (venafiWithout badConfig) ''venafi-issuer'' exampleWorld = Inl badConfig"
    by (simp add: builderAnswer_def venafiWithout_def)
  have n: "\<not> IsNotFound badConfig"
    by (simp add: badConfig_def)
  have e: "recorded exampleWorld = []" "signCalls exampleWorld = []"
    by (simp_all add: exampleWorld_def)
  from Sign_init_error [OF b n, of ninetyDays] show ?thesis
    using b n e by simp
qed

subsection \<open>The request object\<close>

text \<open>
  Claim C9: the certificate request handed to \<^verbatim>\<open>Sign\<close> is not changed by the call: the
  object behind \<^verbatim>\<open>cr\<close> is the same after the call as before, on every path. \<^verbatim>\<open>Sign\<close>
  itself only reads \<^verbatim>\<open>cr\<close>; the reporter, which holds the pointer, is the one modelled
  from the specification above.
\<close>

theorem Sign_request_unchanged:
  "request (snd (Sign dflt v i w)) = request w"
proof (cases rule: Sign_exits [where v = v and i = i and w = w and dflt = dflt])
  case (build_failed e)
  then show ?thesis by (simp add: Sign_build_failed)
next
  case (issued c pem)
  then show ?thesis by (simp add: Sign_issued)
next
  case (pending c pem cid st)
  then show ?thesis by (simp add: Sign_pending)
next
  case (timeout c pem cid)
  then show ?thesis by (simp add: Sign_timeout)
next
  case (retrieve c pem e)
  then show ?thesis by (simp add: Sign_retrieve)
qed

theorem Sign_request_unchanged_witness:
  "request (snd (Sign ninetyDays (venafiWith pendingClient) ''venafi-issuer'' exampleWorld)) = exampleRequest"
  using Sign_request_unchanged [of ninetyDays "venafiWith pendingClient" "''venafi-issuer''" exampleWorld]
  by (simp add: exampleWorld_def)

subsection \<open>Where a returned error comes from\<close>

text \<open>
  Claim C10: whenever \<^verbatim>\<open>Sign\<close> returns a non-nil error, that error is the very value the
  client builder returned, or the very value the CA client's \<^verbatim>\<open>Sign\<close> returned; the
  method never wraps or replaces it and never makes up an error of its own.
\<close>

theorem Sign_error_is_collaborators:
  assumes "snd (fst (Sign dflt v i w)) = Some e"
  shows "builderAnswer v i w = Inl e
         \<or> (\<exists>c. builderAnswer v i w = Inr c \<and> snd (clientAnswer dflt c w) = Some e)"
proof (cases rule: Sign_exits [where v = v and i = i and w = w and dflt = dflt])
  case (build_failed e')
  with assms show ?thesis by (simp add: Sign_build_failed split: if_splits)
next
  case (issued c pem)
  with assms show ?thesis by (simp add: Sign_issued)
next
  case (pending c pem cid st)
  with assms show ?thesis by (simp add: Sign_pending)
next
  case (timeout c pem cid)
  with assms show ?thesis by (simp add: Sign_timeout)
next
  case (retrieve c pem e')
  with assms show ?thesis by (simp add: Sign_retrieve)
qed

theorem Sign_error_is_collaborators_witness:
  "snd (fst (Sign ninetyDays (venafiWithout badConfig) ''venafi-issuer'' exampleWorld)) = Some badConfig
   \<and> builderAnswer (venafiWithout badConfig) ''venafi-issuer'' exampleWorld = Inl badConfig"
proof -
  have r: "snd (fst (Sign ninetyDays (venafiWithout badConfig) ''venafi-issuer'' exampleWorld)) = Some badConfig"
    by (simp add: Sign_def venafiWithout_def badConfig_def reporter_Pending_def
        log_Error_def Let_def)
  from Sign_error_is_collaborators [OF r] show ?thesis
    using r by (simp add: builderAnswer_def venafiWithout_def)
qed

end
